theory Spec2Isabelle
  imports Complex_Main "HOL-Library.Log_Nat"
begin

section \<open>The time tracker plugin (src/main.ts)\<close>

text \<open>
  The plugin keeps one settings object that holds both the configuration (three header
  strings) and the runtime state of the tracker (the running session and the ledger of
  tracked milliseconds per note). Two commands act on it: \<open>startTrackingTime\<close> and
  \<open>stopTrackingTime\<close>; the second one also writes a log entry into the focused editor
  (\<open>logTimeToEditor\<close>).

  Conventions of the embedding:
  \<^item> a timestamp (\<open>Date.now()\<close>) and a ledger value are integers (\<open>int\<close>): milliseconds,
    numbers on which the sum and the difference of doubles are exact as long as the
    result stays below \<open>2 ^ 53\<close> in absolute value;
  \<^item> the arithmetic of \<open>logTimeToEditor\<close> (a division, \<open>Math.round\<close>, \<open>Math.floor\<close>,
    the remainder operator) is given twice: on exact rationals (\<open>rat\<close>), and on doubles,
    where every division and multiplication is followed by the rounding to the nearest
    double; the two are proved to agree on every elapsed time below \<open>2 ^ 53\<close> in absolute
    value, the range in which every integer is a double;
  \<^item> \<open>null\<close> is \<open>None\<close>;
  \<^item> the ledger is a map from paths to numbers: the own properties of the object
    \<open>timeTracking\<close> (a path is not taken to be the name of a member of
    \<open>Object.prototype\<close>);
  \<^item> the host (Obsidian) is a record of what the plugin reads from it and writes to it:
    the active file, the active leaf with its view, the notices shown, the data handed
    to \<open>saveData\<close>, the state of the start button that \<open>updateStatusBar\<close> rebuilds;
    the clock reading and the localised date string are arguments.
\<close>

subsection \<open>Data\<close>

type_synonym NoteTimeTracking = "string \<rightharpoonup> int"

record TimeTrackerSettings =
  startTime :: "int option"
  currentNote :: "string option"
  dateHeader :: string
  durationHeader :: string
  logSectionHeader :: string
  timeTracking :: NoteTimeTracking

text \<open>
  The editor of a Markdown view: the text of its document and the cursor, an offset into
  the text. \<open>replaceRange text cursor\<close> with a single position inserts the text there.
\<close>

record Editor =
  docValue :: string
  docCursor :: nat

datatype View = MarkdownView Editor | OtherView

record TimeTrackerPlugin =
  settings :: TimeTrackerSettings
  activeFile :: "string option"
  activeLeaf :: "View option"
  notices :: "string list"
  savedData :: "TimeTrackerSettings option"
  startButtonDisabled :: bool

subsection \<open>Host operations\<close>

definition Notice :: "string \<Rightarrow> TimeTrackerPlugin \<Rightarrow> TimeTrackerPlugin" where
  "Notice msg p = p\<lparr>notices := notices p @ [msg]\<rparr>"

definition saveSettings :: "TimeTrackerPlugin \<Rightarrow> TimeTrackerPlugin" where
  "saveSettings p = p\<lparr>savedData := Some (settings p)\<rparr>"

definition updateStatusBar :: "TimeTrackerPlugin \<Rightarrow> TimeTrackerPlugin" where
  "updateStatusBar p = p\<lparr>startButtonDisabled := False\<rparr>"

definition replaceRange :: "string \<Rightarrow> nat \<Rightarrow> string \<Rightarrow> string" where
  "replaceRange text pos doc = take pos doc @ text @ drop pos doc"

subsection \<open>JavaScript primitives\<close>

text \<open>Truthiness of a \<open>number | null\<close> and of a \<open>string | null\<close>.\<close>

definition truthy_number :: "int option \<Rightarrow> bool" where
  "truthy_number v = (case v of None \<Rightarrow> False | Some n \<Rightarrow> n \<noteq> 0)"

definition truthy_string :: "string option \<Rightarrow> bool" where
  "truthy_string v = (case v of None \<Rightarrow> False | Some s \<Rightarrow> s \<noteq> [])"

text \<open>\<open>Math.round\<close> rounds to the nearest integer, a half towards plus infinity.\<close>

definition Math_round :: "rat \<Rightarrow> int" where
  "Math_round x = \<lfloor>x + 1 / 2\<rfloor>"

definition Math_floor :: "rat \<Rightarrow> int" where
  "Math_floor x = \<lfloor>x\<rfloor>"

text \<open>
  The remainder operator \<open>%\<close>: the quotient is truncated towards zero, so the result has
  the sign of the dividend. (A zero divisor gives \<open>NaN\<close>; the code divides by 60 and 1.)
\<close>

definition trunc :: "rat \<Rightarrow> int" where
  "trunc x = (if 0 \<le> x then \<lfloor>x\<rfloor> else \<lceil>x\<rceil>)"

definition js_rem :: "rat \<Rightarrow> rat \<Rightarrow> rat" where
  "js_rem a b = a - b * of_int (trunc (a / b))"

text \<open>
  A number is a double. \<open>to_double\<close> rounds a rational to the nearest number with a
  significand of 53 bits, a tie to the even significand: \<open>exponent_of x\<close> is the
  exponent \<open>ex\<close> with \<open>2 ^ ex \<le> \<bar>x\<bar> < 2 ^ (ex + 1)\<close>, and the significand is \<open>x\<close> scaled by
  \<open>2 ^ (52 - ex)\<close> and rounded to an integer. The range of the exponent is not modelled
  (no overflow, no subnormal numbers): the values of \<open>logTimeToEditor\<close> are far from
  both ends. \<open>Math.round\<close>, \<open>Math.floor\<close> and \<open>%\<close> are exact on doubles.
\<close>

definition exponent_of :: "rat \<Rightarrow> int" where
  "exponent_of x =
     (let (p, q) = quotient_of \<bar>x\<bar>;
          d = bitlen p - bitlen q
      in if 2 powi d \<le> \<bar>x\<bar> then d else d - 1)"

definition round_half_even :: "rat \<Rightarrow> int" where
  "round_half_even y =
     (let n = \<lfloor>y\<rfloor>; r = y - of_int n
      in if r < 1 / 2 then n else if 1 / 2 < r then n + 1 else if even n then n else n + 1)"

definition to_double :: "rat \<Rightarrow> rat" where
  "to_double x =
     (if x = 0 then 0
      else let ex = exponent_of x - 52
           in of_int (round_half_even (x / 2 powi ex)) * 2 powi ex)"

text \<open>\<open>String(n)\<close> for an integer \<open>n\<close>: its decimal digits, with a minus sign below zero.\<close>

definition digit_char :: "nat \<Rightarrow> char" where
  "digit_char d = char_of (48 + d)"

fun digits_of_nat :: "nat \<Rightarrow> string" where
  "digits_of_nat n =
     (if n < 10 then [digit_char n] else digits_of_nat (n div 10) @ [digit_char (n mod 10)])"

declare digits_of_nat.simps [simp del]

definition String_of_int :: "int \<Rightarrow> string" where
  "String_of_int i = (if i < 0 then CHR ''-'' # digits_of_nat (nat (- i)) else digits_of_nat (nat i))"

text \<open>
  \<open>s.padStart(n, pad)\<close>: a string of length \<open>n\<close> or more is returned as it is; a shorter
  one gets the pad string, repeated and cut to the missing length, in front.
\<close>

definition padStart :: "nat \<Rightarrow> string \<Rightarrow> string \<Rightarrow> string" where
  "padStart n pad s =
     (if n \<le> length s \<or> pad = [] then s
      else take (n - length s) (concat (replicate (n - length s) pad)) @ s)"

text \<open>\<open>s.includes(t)\<close>: \<open>t\<close> occurs in \<open>s\<close> as a contiguous run of characters.\<close>

fun starts_with :: "string \<Rightarrow> string \<Rightarrow> bool" where
  "starts_with s [] = True"
| "starts_with [] (c # t) = False"
| "starts_with (d # s) (c # t) = (d = c \<and> starts_with s t)"

fun string_includes :: "string \<Rightarrow> string \<Rightarrow> bool" where
  "string_includes [] t = (t = [])"
| "string_includes (d # s) t = (starts_with (d # s) t \<or> string_includes s t)"

subsection \<open>startTrackingTime\<close>

definition startTrackingTime :: "int \<Rightarrow> TimeTrackerPlugin \<Rightarrow> TimeTrackerPlugin" where
  "startTrackingTime now p =
     (case activeFile p of
        None \<Rightarrow> Notice ''No active file to start tracking time'' p
      | Some path \<Rightarrow>
          (let p1 = p\<lparr>settings := (settings p)\<lparr>startTime := Some now\<rparr>\<rparr>;
               p2 = p1\<lparr>settings := (settings p1)\<lparr>currentNote := Some path\<rparr>\<rparr>;
               p3 = saveSettings p2
           in Notice ''Time tracking started'' p3))"

subsection \<open>logTimeToEditor\<close>

text \<open>
  The components of the duration, in exact arithmetic: \<open>minutes\<close>, \<open>hours\<close>,
  \<open>remainingMinutes\<close>, \<open>remainingSeconds\<close> and the string made of them.
\<close>

definition minutes_of :: "int \<Rightarrow> rat" where
  "minutes_of elapsedTime = of_int (Math_round (of_int elapsedTime / 6000)) / 10"

definition hours_of :: "int \<Rightarrow> int" where
  "hours_of elapsedTime = Math_floor (minutes_of elapsedTime / 60)"

definition remainingMinutes :: "int \<Rightarrow> int" where
  "remainingMinutes elapsedTime = Math_floor (js_rem (minutes_of elapsedTime) 60)"

definition remainingSeconds :: "int \<Rightarrow> int" where
  "remainingSeconds elapsedTime = Math_round (js_rem (minutes_of elapsedTime) 1 * 60)"

definition formattedTime :: "int \<Rightarrow> string" where
  "formattedTime elapsedTime =
     (let formattedHours = padStart 2 ''0'' (String_of_int (hours_of elapsedTime));
          formattedMinutes = padStart 2 ''0'' (String_of_int (remainingMinutes elapsedTime));
          formattedSeconds = padStart 2 ''0'' (String_of_int (remainingSeconds elapsedTime))
      in formattedHours @ '':'' @ formattedMinutes @ '':'' @ formattedSeconds)"

text \<open>The same components in double precision: each quotient and product is rounded.\<close>

definition minutes_double :: "int \<Rightarrow> rat" where
  "minutes_double elapsedTime =
     to_double (of_int (Math_round (to_double (of_int elapsedTime / 6000))) / 10)"

definition hours_double :: "int \<Rightarrow> int" where
  "hours_double elapsedTime = Math_floor (to_double (minutes_double elapsedTime / 60))"

definition remainingMinutes_double :: "int \<Rightarrow> int" where
  "remainingMinutes_double elapsedTime = Math_floor (js_rem (minutes_double elapsedTime) 60)"

definition remainingSeconds_double :: "int \<Rightarrow> int" where
  "remainingSeconds_double elapsedTime =
     Math_round (to_double (js_rem (minutes_double elapsedTime) 1 * 60))"

definition formattedTime_double :: "int \<Rightarrow> string" where
  "formattedTime_double elapsedTime =
     (let formattedHours = padStart 2 ''0'' (String_of_int (hours_double elapsedTime));
          formattedMinutes = padStart 2 ''0'' (String_of_int (remainingMinutes_double elapsedTime));
          formattedSeconds = padStart 2 ''0'' (String_of_int (remainingSeconds_double elapsedTime))
      in formattedHours @ '':'' @ formattedMinutes @ '':'' @ formattedSeconds)"

text \<open>
  The text handed to \<open>replaceRange\<close>. \<open>localeNow\<close> is \<open>new Date().toLocaleString()\<close>,
  \<open>content\<close> the text of the document.
\<close>

definition insertedText :: "TimeTrackerSettings \<Rightarrow> string \<Rightarrow> int \<Rightarrow> string \<Rightarrow> string" where
  "insertedText s localeNow elapsedTime content =
     (let logEntry = ''| '' @ localeNow @ '' | '' @ formattedTime elapsedTime @ '' |'' @ [CHR 0x0A];
          tableHeader = ''| '' @ dateHeader s @ '' | '' @ durationHeader s @ '' |'' @ [CHR 0x0A]
                        @ ''|------|----------|'' @ [CHR 0x0A];
          sectionHeader = ''## '' @ logSectionHeader s;
          newContent =
            (if string_includes content sectionHeader then tableHeader @ logEntry
             else sectionHeader @ [CHR 0x0A, CHR 0x0A] @ tableHeader @ logEntry)
      in [CHR 0x0A, CHR 0x0A] @ newContent @ [CHR 0x0A])"

definition logTimeToEditor ::
  "string \<Rightarrow> Editor \<Rightarrow> int \<Rightarrow> TimeTrackerPlugin \<Rightarrow> Editor \<times> TimeTrackerPlugin" where
  "logTimeToEditor localeNow editor elapsedTime p =
     (let cursor = docCursor editor;
          content = docValue editor;
          block = insertedText (settings p) localeNow elapsedTime content
      in (editor\<lparr>docValue := replaceRange block cursor content\<rparr>,
          Notice ''Time logged successfully'' p))"

subsection \<open>stopTrackingTime\<close>

text \<open>
  A session is running for \<open>stopTrackingTime\<close> when both session fields are truthy: the
  negation of the guard of its first statement.
\<close>

definition session_active :: "TimeTrackerSettings \<Rightarrow> bool" where
  "session_active s \<longleftrightarrow> truthy_number (startTime s) \<and> truthy_string (currentNote s)"

definition stopTrackingTime :: "int \<Rightarrow> string \<Rightarrow> TimeTrackerPlugin \<Rightarrow> TimeTrackerPlugin" where
  "stopTrackingTime now localeNow p =
     (if \<not> truthy_number (startTime (settings p)) \<or> \<not> truthy_string (currentNote (settings p))
      then Notice ''No tracking session in progress'' p
      else
        (case (startTime (settings p), currentNote (settings p)) of
           (Some start, Some note) \<Rightarrow>
             (let currentTime = now;
                  elapsedTime = currentTime - start;
                  p1 = p\<lparr>settings := (settings p)\<lparr>startTime := None\<rparr>\<rparr>;
                  ledger = timeTracking (settings p1);
                  ledger' =
                    (case ledger note of
                       Some tracked \<Rightarrow>
                         (if tracked \<noteq> 0 then ledger(note \<mapsto> tracked + elapsedTime)
                          else ledger(note \<mapsto> elapsedTime))
                     | None \<Rightarrow> ledger(note \<mapsto> elapsedTime));
                  p2 = p1\<lparr>settings := (settings p1)\<lparr>timeTracking := ledger'\<rparr>\<rparr>;
                  p3 =
                    (case activeLeaf p2 of
                       Some view \<Rightarrow>
                         (case view of
                            MarkdownView editor \<Rightarrow>
                              (let (editor', q) = logTimeToEditor localeNow editor elapsedTime p2
                               in q\<lparr>activeLeaf := Some (MarkdownView editor')\<rparr>)
                          | OtherView \<Rightarrow> Notice ''No active Markdown file to log time'' p2)
                     | None \<Rightarrow> Notice ''No active file to log time'' p2);
                  p4 = p3\<lparr>settings := (settings p3)\<lparr>currentNote := None\<rparr>\<rparr>;
                  p5 = updateStatusBar p4
              in saveSettings p5)
         | _ \<Rightarrow> Notice ''No tracking session in progress'' p))"

subsection \<open>loadSettings\<close>

text \<open>
  The persisted data is a JSON object, or nothing when no data file has been written yet
  (\<open>loadData\<close> then resolves to \<open>null\<close>). An object is a finite map from its own
  keys to values. \<open>Object.assign target sources\<close> copies the own properties of every
  source that is not \<open>null\<close> into the target, a later source overwriting an earlier one.
\<close>

datatype jsvalue = JNull | JNumber int | JString string | JObject "(string \<times> jsvalue) list"

type_synonym jsobject = "string \<rightharpoonup> jsvalue"

definition DEFAULT_SETTINGS :: jsobject where
  "DEFAULT_SETTINGS =
     [''startTime'' \<mapsto> JNull,
      ''currentNote'' \<mapsto> JNull,
      ''dateHeader'' \<mapsto> JString ''Starting date'',
      ''durationHeader'' \<mapsto> JString ''Overall duration'',
      ''logSectionHeader'' \<mapsto> JString ''Time Tracking Log'',
      ''timeTracking'' \<mapsto> JObject []]"

definition Object_assign :: "jsobject \<Rightarrow> jsobject option list \<Rightarrow> jsobject" where
  "Object_assign target sources =
     foldl (\<lambda>t src. case src of None \<Rightarrow> t | Some props \<Rightarrow> t ++ props) target sources"

definition loadSettings :: "jsobject option \<Rightarrow> jsobject" where
  "loadSettings loadedData = Object_assign Map.empty [Some DEFAULT_SETTINGS, loadedData]"

section \<open>The specification's reading of the duration format\<close>

text \<open>
  The specification describes the formatted duration in words: \<open>minutes\<close> is the elapsed
  time divided by 6000, rounded, divided by 10; \<open>hours\<close> is the floor of \<open>minutes / 60\<close>;
  the minutes shown are the floor of \<open>minutes mod 60\<close>; the seconds shown are
  \<open>(minutes mod 1) * 60\<close>, rounded; each is padded with zeros to two digits. The
  definition below follows these words. What \<open>mod\<close> means on a fraction is its
  argument \<open>md\<close>: the remainder of the source language (\<open>js_rem\<close>) or the remainder of the
  floored quotient (\<open>floor_mod\<close>), which differ below zero only.
\<close>

definition floor_mod :: "rat \<Rightarrow> rat \<Rightarrow> rat" where
  "floor_mod a b = a - b * of_int \<lfloor>a / b\<rfloor>"

definition zero_pad2 :: "int \<Rightarrow> string" where
  "zero_pad2 n =
     (let s = String_of_int n
      in if length s < 2 then replicate (2 - length s) (CHR ''0'') @ s else s)"

definition spec_formattedTime :: "(rat \<Rightarrow> rat \<Rightarrow> rat) \<Rightarrow> int \<Rightarrow> string" where
  "spec_formattedTime md elapsedMs =
     (let minutes = (of_int (round (of_int elapsedMs / 6000 :: rat)) / 10 :: rat);
          hours = \<lfloor>minutes / 60\<rfloor>;
          remMinutes = \<lfloor>md minutes 60\<rfloor>;
          remSeconds = round (md minutes 1 * 60)
      in zero_pad2 hours @ '':'' @ zero_pad2 remMinutes @ '':'' @ zero_pad2 remSeconds)"

text \<open>
  The elapsed time in tenths of a minute, as an integer: the value of
  \<open>Math.round(elapsedTime / 6000)\<close>.
\<close>

definition tenths :: "int \<Rightarrow> int" where
  "tenths e = (e + 3000) div 6000"

section \<open>Example states\<close>

definition example_settings :: TimeTrackerSettings where
  "example_settings =
     \<lparr>startTime = Some 1000, currentNote = Some ''notes/a.md'',
      dateHeader = ''Starting date'', durationHeader = ''Overall duration'',
      logSectionHeader = ''Time Tracking Log'', timeTracking = Map.empty\<rparr>"

definition example_plugin :: TimeTrackerPlugin where
  "example_plugin =
     \<lparr>settings = example_settings, activeFile = Some ''notes/b.md'',
      activeLeaf = Some OtherView, notices = [], savedData = None,
      startButtonDisabled = True\<rparr>"

definition idle_plugin :: TimeTrackerPlugin where
  "idle_plugin =
     example_plugin\<lparr>settings := example_settings\<lparr>startTime := None, currentNote := None\<rparr>\<rparr>"

definition zero_start_plugin :: TimeTrackerPlugin where
  "zero_start_plugin = example_plugin\<lparr>settings := example_settings\<lparr>startTime := Some 0\<rparr>\<rparr>"

definition empty_note_plugin :: TimeTrackerPlugin where
  "empty_note_plugin = example_plugin\<lparr>settings := example_settings\<lparr>currentNote := Some []\<rparr>\<rparr>"

definition example_data :: jsobject where
  "example_data = [''dateHeader'' \<mapsto> JString ''Day'', ''startTime'' \<mapsto> JNumber 1000]"

section \<open>Arithmetic of the duration format\<close>

lemma Math_round_of_int: "Math_round (of_int n) = n"
  unfolding Math_round_def by (rule floor_unique) simp_all

lemma Math_round_6000: "Math_round (of_int e / 6000) = (e + 3000) div 6000"
proof -
  have "(of_int e / 6000 + 1 / 2 :: rat) = of_int (e + 3000) / of_int 6000"
    by (simp add: field_simps)
  then show ?thesis
    unfolding Math_round_def by (simp only: floor_divide_of_int_eq)
qed

lemma minutes_of_tenths: "minutes_of e = of_int (tenths e) / 10"
  by (simp add: minutes_of_def tenths_def Math_round_6000)

lemma tenths_nonneg: "0 \<le> e \<Longrightarrow> 0 \<le> tenths e"
  by (simp add: tenths_def pos_imp_zdiv_nonneg_iff)

lemma hours_of_div: "hours_of e = tenths e div 600"
proof -
  have "(of_int (tenths e) / 10 / 60 :: rat) = of_int (tenths e) / of_int 600"
    by simp
  then show ?thesis
    unfolding hours_of_def Math_floor_def minutes_of_tenths
    by (simp only: floor_divide_of_int_eq)
qed

lemma js_rem_nonneg:
  assumes "0 \<le> k" and "0 < m"
  shows "js_rem (of_int k / 10) (of_int m) = of_int (k mod (10 * m)) / 10"
proof -
  have q: "(of_int k / 10 / of_int m :: rat) = of_int k / of_int (10 * m)"
    by simp
  have "0 \<le> (of_int k / 10 / of_int m :: rat)"
    using assms by simp
  then have "trunc (of_int k / 10 / of_int m) = k div (10 * m)"
    unfolding trunc_def q by (simp only: floor_divide_of_int_eq if_True)
  moreover have "k = 10 * m * (k div (10 * m)) + k mod (10 * m)"
    by simp
  then have "(of_int k :: rat) = of_int (10 * m * (k div (10 * m)) + k mod (10 * m))"
    by (simp only:)
  ultimately show ?thesis
    unfolding js_rem_def by (simp add: field_simps)
qed

lemma remainingMinutes_nonneg:
  assumes "0 \<le> e"
  shows "remainingMinutes e = (tenths e mod 600) div 10"
proof -
  have "js_rem (minutes_of e) 60 = of_int (tenths e mod 600) / of_int 10"
    using js_rem_nonneg [OF tenths_nonneg [OF assms], of 60]
    by (simp add: minutes_of_tenths)
  then show ?thesis
    unfolding remainingMinutes_def Math_floor_def by (simp only: floor_divide_of_int_eq)
qed

lemma remainingSeconds_nonneg:
  assumes "0 \<le> e"
  shows "remainingSeconds e = 6 * (tenths e mod 10)"
proof -
  have "js_rem (minutes_of e) 1 = of_int (tenths e mod 10) / 10"
    using js_rem_nonneg [OF tenths_nonneg [OF assms], of 1]
    by (simp add: minutes_of_tenths)
  then have r: "js_rem (minutes_of e) 1 * 60 = of_int (6 * (tenths e mod 10))"
    by simp
  show ?thesis
    unfolding remainingSeconds_def r by (rule Math_round_of_int)
qed

section \<open>The tracking session\<close>

lemma stop_without_session:
  assumes "\<not> truthy_number (startTime (settings p)) \<or> \<not> truthy_string (currentNote (settings p))"
  shows "stopTrackingTime now localeNow p = Notice ''No tracking session in progress'' p"
  using assms by (simp add: stopTrackingTime_def)

lemma stop_with_session:
  assumes "startTime (settings p) = Some start" and "start \<noteq> 0"
    and "currentNote (settings p) = Some note" and "note \<noteq> []"
  shows "settings (stopTrackingTime now localeNow p) =
           (settings p)\<lparr>startTime := None, currentNote := None,
             timeTracking := (timeTracking (settings p))
               (note \<mapsto> (case timeTracking (settings p) note of None \<Rightarrow> 0 | Some v \<Rightarrow> v) + (now - start))\<rparr>"
  using assms
  by (auto simp: stopTrackingTime_def truthy_number_def truthy_string_def Let_def
      logTimeToEditor_def Notice_def saveSettings_def updateStatusBar_def
      split: option.splits View.splits)

lemma stop_saves:
  assumes "truthy_number (startTime (settings p))" and "truthy_string (currentNote (settings p))"
  shows "savedData (stopTrackingTime now localeNow p) = Some (settings (stopTrackingTime now localeNow p))"
  using assms
  by (auto simp: stopTrackingTime_def truthy_number_def truthy_string_def Let_def
      logTimeToEditor_def Notice_def saveSettings_def updateStatusBar_def
      split: option.splits View.splits)

lemma stop_without_editor:
  assumes "startTime (settings p) = Some start" and "start \<noteq> 0"
    and "currentNote (settings p) = Some note" and "note \<noteq> []"
    and "activeLeaf p = None \<or> activeLeaf p = Some OtherView"
  shows "activeLeaf (stopTrackingTime now localeNow p) = activeLeaf p"
    and "notices (stopTrackingTime now localeNow p) =
           notices p @ [if activeLeaf p = None then ''No active file to log time''
                        else ''No active Markdown file to log time'']"
  using assms
  by (auto simp: stopTrackingTime_def truthy_number_def truthy_string_def Let_def
      Notice_def saveSettings_def updateStatusBar_def
      split: option.splits View.splits)

lemma start_with_file:
  assumes "activeFile p = Some path"
  shows "startTrackingTime now p =
           p\<lparr>settings := (settings p)\<lparr>startTime := Some now, currentNote := Some path\<rparr>,
             savedData := Some ((settings p)\<lparr>startTime := Some now, currentNote := Some path\<rparr>),
             notices := notices p @ [''Time tracking started'']\<rparr>"
  using assms by (simp add: startTrackingTime_def Let_def saveSettings_def Notice_def)

lemmas example_defs = example_plugin_def example_settings_def idle_plugin_def

lemma absent_not_active:
  "startTime s = None \<or> currentNote s = None \<Longrightarrow> \<not> session_active s"
  by (auto simp: session_active_def truthy_number_def truthy_string_def)

text \<open>
  Claim C4. When no session is running, \<open>stopTrackingTime\<close> shows the notice
  "No tracking session in progress" and returns: the settings with the ledger and the
  session fields, the saved data and the editor are what they were; only the notice has
  been added. No session is running when the guard of \<open>stopTrackingTime\<close> says so, which
  it does whenever the start time or the note of the session is absent.
\<close>

theorem stop_no_session:
  assumes "\<not> session_active (settings p)"
  shows "stopTrackingTime now localeNow p =
           p\<lparr>notices := notices p @ [''No tracking session in progress'']\<rparr>"
  using assms stop_without_session [of p now localeNow]
  by (auto simp: session_active_def Notice_def)

theorem stop_no_session_witness:
  "startTime (settings idle_plugin) = None \<and> currentNote (settings idle_plugin) = None \<and>
   \<not> session_active (settings idle_plugin) \<and>
   stopTrackingTime 5000 ''1/1/2024, 10:00:00 AM'' idle_plugin
     = idle_plugin\<lparr>notices := [''No tracking session in progress'']\<rparr>"
  using stop_no_session [of idle_plugin 5000 "''1/1/2024, 10:00:00 AM''"]
    absent_not_active [of "settings idle_plugin"]
  by (simp add: example_defs)

text \<open>
  Claim C9. The test for a running session is the truthiness of the two session fields:
  with both fields present, a start time that is the number 0 or a note that is the
  empty string makes \<open>stopTrackingTime\<close> behave as with no session: the notice
  "No tracking session in progress" is shown and nothing else changes.
\<close>

theorem stop_falsy_session:
  assumes "startTime (settings p) = Some t" and "currentNote (settings p) = Some d"
    and "t = 0 \<or> d = []"
  shows "stopTrackingTime now localeNow p =
           p\<lparr>notices := notices p @ [''No tracking session in progress'']\<rparr>"
  using assms stop_without_session [of p now localeNow]
  by (auto simp: truthy_number_def truthy_string_def Notice_def)

theorem stop_falsy_session_witness:
  "startTime (settings zero_start_plugin) = Some 0 \<and>
   currentNote (settings zero_start_plugin) = Some ''notes/a.md'' \<and>
   stopTrackingTime 5000 ''now'' zero_start_plugin
     = zero_start_plugin\<lparr>notices := [''No tracking session in progress'']\<rparr> \<and>
   startTime (settings empty_note_plugin) = Some 1000 \<and>
   currentNote (settings empty_note_plugin) = Some [] \<and>
   stopTrackingTime 5000 ''now'' empty_note_plugin
     = empty_note_plugin\<lparr>notices := [''No tracking session in progress'']\<rparr>"
  using stop_falsy_session [of zero_start_plugin 0 "''notes/a.md''" 5000 "''now''"]
    stop_falsy_session [of empty_note_plugin 1000 "[]" 5000 "''now''"]
  by (simp add: example_defs zero_start_plugin_def empty_note_plugin_def)

text \<open>
  Claim C6. With a session running for a note \<open>D1\<close>, \<open>startTrackingTime\<close> on the active
  file \<open>D2\<close> shows no failure notice, only "Time tracking started"; it sets the start
  time to the clock reading and the note of the session to \<open>D2\<close>; and it leaves the whole
  ledger as it was, so that nothing is created or changed for \<open>D1\<close>.
\<close>

theorem start_overwrites_session:
  assumes "startTime (settings p) = Some t1" and "currentNote (settings p) = Some D1"
    and "activeFile p = Some D2"
  shows "startTime (settings (startTrackingTime now p)) = Some now \<and>
         currentNote (settings (startTrackingTime now p)) = Some D2 \<and>
         timeTracking (settings (startTrackingTime now p)) = timeTracking (settings p) \<and>
         timeTracking (settings (startTrackingTime now p)) D1 = timeTracking (settings p) D1 \<and>
         notices (startTrackingTime now p) = notices p @ [''Time tracking started''] \<and>
         savedData (startTrackingTime now p) = Some (settings (startTrackingTime now p))"
  using assms by (simp add: start_with_file)

theorem start_overwrites_session_witness:
  "startTime (settings example_plugin) = Some 1000 \<and>
   currentNote (settings example_plugin) = Some ''notes/a.md'' \<and>
   activeFile example_plugin = Some ''notes/b.md'' \<and>
   startTime (settings (startTrackingTime 7000 example_plugin)) = Some 7000 \<and>
   currentNote (settings (startTrackingTime 7000 example_plugin)) = Some ''notes/b.md'' \<and>
   timeTracking (settings (startTrackingTime 7000 example_plugin)) ''notes/a.md'' = None \<and>
   notices (startTrackingTime 7000 example_plugin) = [''Time tracking started'']"
  using start_overwrites_session [of example_plugin 1000 "''notes/a.md''" "''notes/b.md''" 7000]
  by (simp add: example_defs)

text \<open>
  Claim C7. With a session running and a focused view that is not a Markdown view (or no
  active leaf at all), \<open>stopTrackingTime\<close> still adds the elapsed time to the ledger
  entry of the note and still hands the updated settings to \<open>saveData\<close>; the session is
  cleared; no text is inserted anywhere (the active leaf is what it was), and one notice
  tells the user so.
\<close>

theorem stop_without_markdown_view:
  assumes "startTime (settings p) = Some start" and "start \<noteq> 0"
    and "currentNote (settings p) = Some note" and "note \<noteq> []"
    and "activeLeaf p = None \<or> activeLeaf p = Some OtherView"
  shows "timeTracking (settings (stopTrackingTime now localeNow p)) note =
           Some ((case timeTracking (settings p) note of None \<Rightarrow> 0 | Some v \<Rightarrow> v) + (now - start)) \<and>
         savedData (stopTrackingTime now localeNow p) =
           Some (settings (stopTrackingTime now localeNow p)) \<and>
         startTime (settings (stopTrackingTime now localeNow p)) = None \<and>
         currentNote (settings (stopTrackingTime now localeNow p)) = None \<and>
         activeLeaf (stopTrackingTime now localeNow p) = activeLeaf p \<and>
         notices (stopTrackingTime now localeNow p) =
           notices p @ [if activeLeaf p = None then ''No active file to log time''
                        else ''No active Markdown file to log time'']"
proof -
  have "truthy_number (startTime (settings p))" and "truthy_string (currentNote (settings p))"
    using assms by (simp_all add: truthy_number_def truthy_string_def)
  then have "savedData (stopTrackingTime now localeNow p) =
      Some (settings (stopTrackingTime now localeNow p))"
    by (rule stop_saves)
  moreover note stop_without_editor [OF assms, of now localeNow]
  moreover note stop_with_session [OF assms(1-4), of now localeNow]
  ultimately show ?thesis by simp
qed

theorem stop_without_markdown_view_witness:
  "startTime (settings example_plugin) = Some 1000 \<and>
   currentNote (settings example_plugin) = Some ''notes/a.md'' \<and>
   activeLeaf example_plugin = Some OtherView \<and>
   timeTracking (settings (stopTrackingTime 66000 ''now'' example_plugin)) ''notes/a.md'' = Some 65000 \<and>
   savedData (stopTrackingTime 66000 ''now'' example_plugin) =
     Some (settings (stopTrackingTime 66000 ''now'' example_plugin)) \<and>
   currentNote (settings (stopTrackingTime 66000 ''now'' example_plugin)) = None \<and>
   activeLeaf (stopTrackingTime 66000 ''now'' example_plugin) = Some OtherView \<and>
   notices (stopTrackingTime 66000 ''now'' example_plugin) = [''No active Markdown file to log time'']"
  using stop_without_markdown_view [of example_plugin 1000 "''notes/a.md''" 66000 "''now''"]
  by (simp add: example_defs)

text \<open>
  Claim C1, as the code has it. For a running session \<open>stopTrackingTime\<close> takes the
  difference \<open>now - startTime\<close> as it is, without a lower bound, and adds it to the ledger
  entry of the note (an absent entry counts as 0); no other entry changes. When the clock
  has not gone back (\<open>startTime \<le> now\<close>) the value added is not negative, and an entry
  that was absent or not negative stays not negative.
\<close>

theorem stop_adds_elapsed:
  assumes "startTime (settings p) = Some start" and "start \<noteq> 0"
    and "currentNote (settings p) = Some note" and "note \<noteq> []"
  shows "timeTracking (settings (stopTrackingTime now localeNow p)) note =
           Some ((case timeTracking (settings p) note of None \<Rightarrow> 0 | Some v \<Rightarrow> v) + (now - start)) \<and>
         (\<forall>d. d \<noteq> note \<longrightarrow>
            timeTracking (settings (stopTrackingTime now localeNow p)) d = timeTracking (settings p) d) \<and>
         (start \<le> now \<longrightarrow> 0 \<le> now - start) \<and>
         (start \<le> now \<and> (\<forall>v. timeTracking (settings p) note = Some v \<longrightarrow> 0 \<le> v) \<longrightarrow>
            (\<exists>v'. timeTracking (settings (stopTrackingTime now localeNow p)) note = Some v' \<and> 0 \<le> v'))"
  using stop_with_session [OF assms, of now localeNow]
  by (auto split: option.splits)

theorem stop_adds_elapsed_witness:
  "startTime (settings example_plugin) = Some 1000 \<and> (1000::int) \<noteq> 0 \<and>
   currentNote (settings example_plugin) = Some ''notes/a.md'' \<and> ''notes/a.md'' \<noteq> [] \<and>
   timeTracking (settings (stopTrackingTime 66000 ''now'' example_plugin)) ''notes/a.md'' = Some 65000 \<and>
   timeTracking (settings (stopTrackingTime 66000 ''now'' example_plugin)) ''notes/b.md'' = None"
  using stop_adds_elapsed [of example_plugin 1000 "''notes/a.md''" 66000 "''now''"]
  by (simp add: example_defs)

text \<open>
  The claim as the specification states it (a negative difference is recorded as 0, so
  that a ledger entry is never negative) fails: with the session started at 1000 and the
  clock at 400 when it is stopped, the new ledger entry is -600.
\<close>

theorem stop_negative_elapsed_counterexample:
  "truthy_number (startTime (settings example_plugin)) \<and>
   truthy_string (currentNote (settings example_plugin)) \<and>
   timeTracking (settings example_plugin) ''notes/a.md'' = None \<and>
   timeTracking (settings (stopTrackingTime 400 ''now'' example_plugin)) ''notes/a.md'' = Some (- 600) \<and>
   timeTracking (settings (stopTrackingTime 400 ''now'' example_plugin)) ''notes/a.md'' \<noteq> Some 0"
  using stop_with_session [of example_plugin 1000 "''notes/a.md''" 400 "''now''"]
  by (simp add: example_defs truthy_number_def truthy_string_def)

text \<open>
  Claim C5. Two sessions on the same note \<open>D\<close>, of \<open>e1\<close> and \<open>e2\<close> milliseconds, add
  \<open>e1 + e2\<close> to the ledger entry of \<open>D\<close>, exactly: from an absent entry the ledger ends
  with \<open>e1 + e2\<close>. The view focused at each stop (\<open>v2\<close>, \<open>v4\<close>), and with it whether and
  how the duration is formatted for the log, has no part in the stored value. The
  sessions are running ones: the clock readings at the two starts are not 0 and the
  path of the note is not empty.
\<close>

theorem two_sessions_accumulate:
  assumes "D \<noteq> []" and "t1 \<noteq> 0" and "t3 \<noteq> 0"
  shows "(let p1 = startTrackingTime t1 (p\<lparr>activeFile := Some D\<rparr>);
              p2 = stopTrackingTime (t1 + e1) l2 (p1\<lparr>activeLeaf := v2\<rparr>);
              p3 = startTrackingTime t3 (p2\<lparr>activeFile := Some D\<rparr>);
              p4 = stopTrackingTime (t3 + e2) l4 (p3\<lparr>activeLeaf := v4\<rparr>)
          in timeTracking (settings p4) D =
               Some ((case timeTracking (settings p) D of None \<Rightarrow> 0 | Some v \<Rightarrow> v) + (e1 + e2)) \<and>
             (timeTracking (settings p) D = None \<longrightarrow> timeTracking (settings p4) D = Some (e1 + e2)))"
proof -
  define p1 where "p1 = startTrackingTime t1 (p\<lparr>activeFile := Some D\<rparr>)"
  define p2 where "p2 = stopTrackingTime (t1 + e1) l2 (p1\<lparr>activeLeaf := v2\<rparr>)"
  define p3 where "p3 = startTrackingTime t3 (p2\<lparr>activeFile := Some D\<rparr>)"
  define p4 where "p4 = stopTrackingTime (t3 + e2) l4 (p3\<lparr>activeLeaf := v4\<rparr>)"
  have s1: "settings p1 = (settings p)\<lparr>startTime := Some t1, currentNote := Some D\<rparr>"
    unfolding p1_def by (simp add: start_with_file)
  have s2: "timeTracking (settings p2) D =
      Some ((case timeTracking (settings p) D of None \<Rightarrow> 0 | Some v \<Rightarrow> v) + e1)"
    unfolding p2_def
    using stop_with_session [of "p1\<lparr>activeLeaf := v2\<rparr>" t1 D "t1 + e1" l2] assms s1
    by simp
  have s3: "settings p3 = (settings p2)\<lparr>startTime := Some t3, currentNote := Some D\<rparr>"
    unfolding p3_def by (simp add: start_with_file)
  have s4: "timeTracking (settings p4) D =
      Some ((case timeTracking (settings p3) D of None \<Rightarrow> 0 | Some v \<Rightarrow> v) + e2)"
    unfolding p4_def
    using stop_with_session [of "p3\<lparr>activeLeaf := v4\<rparr>" t3 D "t3 + e2" l4] assms s3
    by simp
  have "timeTracking (settings p4) D =
      Some ((case timeTracking (settings p) D of None \<Rightarrow> 0 | Some v \<Rightarrow> v) + (e1 + e2))"
    using s2 s3 s4 by simp
  then show ?thesis
    unfolding Let_def p1_def p2_def p3_def p4_def by simp
qed

theorem two_sessions_accumulate_witness:
  "''notes/a.md'' \<noteq> [] \<and> (1000::int) \<noteq> 0 \<and> (90000::int) \<noteq> 0 \<and>
   timeTracking (settings
     (stopTrackingTime (90000 + 2500) ''later''
       ((startTrackingTime 90000
         ((stopTrackingTime (1000 + 65000) ''now''
           ((startTrackingTime 1000 (idle_plugin\<lparr>activeFile := Some ''notes/a.md''\<rparr>))
              \<lparr>activeLeaf := Some (MarkdownView \<lparr>docValue = ''text'', docCursor = 2\<rparr>)\<rparr>))
            \<lparr>activeFile := Some ''notes/a.md''\<rparr>))
          \<lparr>activeLeaf := None\<rparr>))) ''notes/a.md''
     = Some 67500"
  using two_sessions_accumulate [of "''notes/a.md''" 1000 90000 idle_plugin 65000 "''now''"
      "Some (MarkdownView \<lparr>docValue = ''text'', docCursor = 2\<rparr>)" 2500 "''later''" None]
  by (simp add: example_defs Let_def)

section \<open>Loading the settings\<close>

lemma Object_assign_two:
  "Object_assign Map.empty [Some a, b] = (case b of None \<Rightarrow> a | Some props \<Rightarrow> a ++ props)"
  by (simp add: Object_assign_def split: option.splits)

text \<open>
  Claim C8. The settings after \<open>loadSettings\<close> are the loaded data merged over the
  defaults, key by key: a key that the loaded data does not have (or every key, when
  there is no loaded data) has its default value, a key that the loaded data has takes
  the loaded value. The defaults are: no start time, no current note, the three header
  strings "Starting date", "Overall duration" and "Time Tracking Log", an empty ledger.
\<close>

theorem loadSettings_merge:
  "(k \<notin> dom loaded \<longrightarrow> loadSettings (Some loaded) k = DEFAULT_SETTINGS k) \<and>
   (k \<in> dom loaded \<longrightarrow> loadSettings (Some loaded) k = loaded k) \<and>
   loadSettings None = DEFAULT_SETTINGS \<and>
   dom DEFAULT_SETTINGS = {''startTime'', ''currentNote'', ''dateHeader'', ''durationHeader'',
      ''logSectionHeader'', ''timeTracking''} \<and>
   DEFAULT_SETTINGS ''startTime'' = Some JNull \<and>
   DEFAULT_SETTINGS ''currentNote'' = Some JNull \<and>
   DEFAULT_SETTINGS ''dateHeader'' = Some (JString ''Starting date'') \<and>
   DEFAULT_SETTINGS ''durationHeader'' = Some (JString ''Overall duration'') \<and>
   DEFAULT_SETTINGS ''logSectionHeader'' = Some (JString ''Time Tracking Log'') \<and>
   DEFAULT_SETTINGS ''timeTracking'' = Some (JObject [])"
proof -
  have "k \<notin> dom loaded \<longrightarrow> loadSettings (Some loaded) k = DEFAULT_SETTINGS k"
    by (simp add: loadSettings_def Object_assign_two map_add_def domIff)
  moreover have "k \<in> dom loaded \<longrightarrow> loadSettings (Some loaded) k = loaded k"
    by (auto simp: loadSettings_def Object_assign_two map_add_def)
  moreover have "loadSettings None = DEFAULT_SETTINGS"
    by (simp add: loadSettings_def Object_assign_two)
  moreover have "dom DEFAULT_SETTINGS = {''startTime'', ''currentNote'', ''dateHeader'',
      ''durationHeader'', ''logSectionHeader'', ''timeTracking''}"
    unfolding DEFAULT_SETTINGS_def by auto
  moreover have "DEFAULT_SETTINGS ''startTime'' = Some JNull"
    and "DEFAULT_SETTINGS ''currentNote'' = Some JNull"
    and "DEFAULT_SETTINGS ''dateHeader'' = Some (JString ''Starting date'')"
    and "DEFAULT_SETTINGS ''durationHeader'' = Some (JString ''Overall duration'')"
    and "DEFAULT_SETTINGS ''logSectionHeader'' = Some (JString ''Time Tracking Log'')"
    and "DEFAULT_SETTINGS ''timeTracking'' = Some (JObject [])"
    by (simp_all add: DEFAULT_SETTINGS_def)
  ultimately show ?thesis by blast
qed

theorem loadSettings_merge_witness:
  "''dateHeader'' \<in> dom example_data \<and> ''durationHeader'' \<notin> dom example_data \<and>
   loadSettings (Some example_data) ''dateHeader'' = Some (JString ''Day'') \<and>
   loadSettings (Some example_data) ''startTime'' = Some (JNumber 1000) \<and>
   loadSettings (Some example_data) ''durationHeader'' = Some (JString ''Overall duration'') \<and>
   loadSettings (Some example_data) ''timeTracking'' = Some (JObject [])"
  using loadSettings_merge [of "''dateHeader''" example_data]
    loadSettings_merge [of "''durationHeader''" example_data]
    loadSettings_merge [of "''startTime''" example_data]
    loadSettings_merge [of "''timeTracking''" example_data]
  by (simp add: example_data_def)

section \<open>The inserted text\<close>

lemma starts_with_iff: "starts_with s t \<longleftrightarrow> (\<exists>ss. s = t @ ss)"
  by (induction s t rule: starts_with.induct) auto

lemma string_includes_iff: "string_includes s t \<longleftrightarrow> (\<exists>ps ss. s = ps @ t @ ss)"
proof (induction s)
  case Nil
  then show ?case by auto
next
  case (Cons d s)
  have "(\<exists>ps ss. d # s = ps @ t @ ss) \<longleftrightarrow>
      (\<exists>ss. d # s = t @ ss) \<or> (\<exists>ps ss. s = ps @ t @ ss)"
  proof
    assume "\<exists>ps ss. d # s = ps @ t @ ss"
    then obtain ps ss where eq: "d # s = ps @ t @ ss" by blast
    show "(\<exists>ss. d # s = t @ ss) \<or> (\<exists>ps ss. s = ps @ t @ ss)"
    proof (cases ps)
      case Nil
      with eq show ?thesis by auto
    next
      case (Cons a ps')
      with eq have "s = ps' @ t @ ss" by simp
      then show ?thesis by blast
    qed
  next
    assume "(\<exists>ss. d # s = t @ ss) \<or> (\<exists>ps ss. s = ps @ t @ ss)"
    then show "\<exists>ps ss. d # s = ps @ t @ ss"
    proof
      assume "\<exists>ss. d # s = t @ ss"
      then obtain ss where "d # s = [] @ t @ ss" by auto
      then show ?thesis by blast
    next
      assume "\<exists>ps ss. s = ps @ t @ ss"
      then obtain ps ss where "d # s = (d # ps) @ t @ ss" by auto
      then show ?thesis by blast
    qed
  qed
  with Cons.IH show ?case by (simp add: starts_with_iff)
qed

text \<open>
  Claim C2. The text that \<open>logTimeToEditor\<close> inserts is two newlines, a block, one
  newline. When the text of the document contains the string \<open>## <logSectionHeader>\<close>
  somewhere, the block is the table header (the row of the two column titles and the
  separator row) and the new row; otherwise it is the section header line, a blank line,
  the table header and the new row. The table header is emitted in both cases. The text
  goes into the document at the cursor.
\<close>

theorem insertedText_layout:
  "insertedText s localeNow e content =
     (let row = ''| '' @ localeNow @ '' | '' @ formattedTime e @ '' |'' @ [CHR 0x0A];
          header = ''| '' @ dateHeader s @ '' | '' @ durationHeader s @ '' |'' @ [CHR 0x0A]
                   @ ''|------|----------|'' @ [CHR 0x0A]
      in if (\<exists>before after. content = before @ (''## '' @ logSectionHeader s) @ after)
         then [CHR 0x0A, CHR 0x0A] @ (header @ row) @ [CHR 0x0A]
         else [CHR 0x0A, CHR 0x0A] @ (''## '' @ logSectionHeader s @ [CHR 0x0A] @ [CHR 0x0A] @ header @ row)
              @ [CHR 0x0A]) \<and>
   fst (logTimeToEditor localeNow ed e p) =
     ed\<lparr>docValue := take (docCursor ed) (docValue ed)
                      @ insertedText (settings p) localeNow e (docValue ed)
                      @ drop (docCursor ed) (docValue ed)\<rparr>"
proof -
  have "string_includes content (''## '' @ logSectionHeader s) \<longleftrightarrow>
      (\<exists>before after. content = before @ (''## '' @ logSectionHeader s) @ after)"
    by (rule string_includes_iff)
  then show ?thesis
    by (simp add: insertedText_def logTimeToEditor_def replaceRange_def Let_def)
qed

theorem insertedText_layout_witness:
  "insertedText example_settings ''d'' 65000 ''# Title'' =
     [CHR 0x0A, CHR 0x0A] @ ''## Time Tracking Log'' @ [CHR 0x0A, CHR 0x0A]
     @ ''| Starting date | Overall duration |'' @ [CHR 0x0A] @ ''|------|----------|'' @ [CHR 0x0A]
     @ ''| d | '' @ formattedTime 65000 @ '' |'' @ [CHR 0x0A] @ [CHR 0x0A] \<and>
   insertedText example_settings ''d'' 65000 ''a ## Time Tracking Log b'' =
     [CHR 0x0A, CHR 0x0A]
     @ ''| Starting date | Overall duration |'' @ [CHR 0x0A] @ ''|------|----------|'' @ [CHR 0x0A]
     @ ''| d | '' @ formattedTime 65000 @ '' |'' @ [CHR 0x0A] @ [CHR 0x0A]"
proof -
  have no: "\<not> (\<exists>before after. ''# Title'' = before @ (''## '' @ logSectionHeader example_settings) @ after)"
    using string_includes_iff [of "''# Title''" "''## '' @ logSectionHeader example_settings"]
    by (simp add: example_settings_def)
  have yes: "\<exists>before after. ''a ## Time Tracking Log b'' =
      before @ (''## '' @ logSectionHeader example_settings) @ after"
    using string_includes_iff [of "''a ## Time Tracking Log b''" "''## '' @ logSectionHeader example_settings"]
    by (simp add: example_settings_def)
  show ?thesis
    using insertedText_layout [of example_settings "''d''" 65000 "''# Title''"]
      insertedText_layout [of example_settings "''d''" 65000 "''a ## Time Tracking Log b''"]
    unfolding Let_def if_not_P [OF no] if_P [OF yes]
    by (simp add: example_settings_def)
qed

section \<open>Double precision\<close>

text \<open>
  The rounding to a double has a relative error of at most \<open>2 ^ (- 53)\<close> and leaves a
  double as it is. With these two facts the floors and roundings of \<open>logTimeToEditor\<close>
  are the same in double precision as in exact arithmetic: the exact values are
  fractions with denominators 6000, 600 and 10, and the rounded values are too close
  to them to fall on the other side of an integer.
\<close>

lemma pos_rat_quotient:
  assumes "0 < (x::rat)"
  obtains p q where "quotient_of x = (p, q)" and "0 < p" and "0 < q" and "x = of_int p / of_int q"
proof -
  obtain p q where pq: "quotient_of x = (p, q)" by (cases "quotient_of x")
  then have q: "0 < q" by (rule quotient_of_denom_pos)
  have x: "x = of_int p / of_int q" using pq by (rule quotient_of_div)
  with assms q have p: "0 < p"
    by (simp add: zero_less_divide_iff)
  from pq p q x show thesis by (rule that)
qed

lemma bitlen_powi_bounds:
  assumes "0 < p"
  shows "(2::rat) powi (bitlen p - 1) \<le> of_int p" and "of_int p < (2::rat) powi (bitlen p)"
proof -
  from bitlen_bounds [OF assms]
  have a: "2 ^ nat (bitlen p - 1) \<le> p" and b: "p < 2 ^ nat (bitlen p)" by simp_all
  have ge1: "1 \<le> bitlen p"
    using assms bitlen_eq_zero_iff [of p] bitlen_nonneg [of p] by linarith
  have "(of_int (2 ^ nat (bitlen p - 1)) :: rat) \<le> of_int p"
    using a by (simp only: of_int_le_iff)
  then show "(2::rat) powi (bitlen p - 1) \<le> of_int p"
    using ge1 by (simp add: power_int_nonneg_exp)
  have "(of_int p :: rat) < of_int (2 ^ nat (bitlen p))"
    using b by (simp only: of_int_less_iff)
  then show "of_int p < (2::rat) powi (bitlen p)"
    using ge1 by (simp add: power_int_nonneg_exp)
qed

lemma exponent_of_bounds:
  assumes "x \<noteq> 0"
  shows "2 powi (exponent_of x) \<le> \<bar>x\<bar>" and "\<bar>x\<bar> < 2 powi (exponent_of x + 1)"
proof -
  have "0 < \<bar>x\<bar>" using assms by simp
  then obtain p q where pq: "quotient_of \<bar>x\<bar> = (p, q)" and p: "0 < p" and q: "0 < q"
    and x: "\<bar>x\<bar> = of_int p / of_int q"
    by (rule pos_rat_quotient)
  define d where "d = bitlen p - bitlen q"
  have ex: "exponent_of x = (if 2 powi d \<le> \<bar>x\<bar> then d else d - 1)"
    by (simp add: exponent_of_def pq d_def Let_def)
  note bp = bitlen_powi_bounds [OF p] and bq = bitlen_powi_bounds [OF q]
  have qpos: "(0::rat) < of_int q" using q by simp
  have up: "\<bar>x\<bar> < 2 powi (d + 1)"
  proof -
    have "of_int p < (2::rat) powi (bitlen p)" by (rule bp(2))
    also have "\<dots> = 2 powi (d + 1) * 2 powi (bitlen q - 1)"
      by (simp add: d_def flip: power_int_add)
    also have "\<dots> \<le> 2 powi (d + 1) * of_int q"
      using bq(1) by (simp add: mult_left_mono)
    finally show ?thesis
      unfolding x using qpos by (simp add: pos_divide_less_eq)
  qed
  have low: "2 powi (d - 1) \<le> \<bar>x\<bar>"
  proof -
    have "(2::rat) powi (d - 1) * of_int q \<le> 2 powi (d - 1) * 2 powi (bitlen q)"
      using bq(2) by (simp add: mult_left_mono)
    also have "\<dots> = 2 powi (bitlen p - 1)"
      by (simp add: d_def flip: power_int_add)
    also have "\<dots> \<le> of_int p" by (rule bp(1))
    finally show ?thesis
      unfolding x using qpos by (simp add: pos_le_divide_eq)
  qed
  show "2 powi (exponent_of x) \<le> \<bar>x\<bar>"
    using low by (simp add: ex)
  show "\<bar>x\<bar> < 2 powi (exponent_of x + 1)"
    using up by (auto simp: ex not_le)
qed


lemma round_half_even_error: "\<bar>of_int (round_half_even y) - y\<bar> \<le> 1 / 2"
proof -
  have "of_int \<lfloor>y\<rfloor> \<le> y" and "y < of_int \<lfloor>y\<rfloor> + 1"
    by linarith+
  then show ?thesis
    by (auto simp: round_half_even_def Let_def)
qed

lemma round_half_even_of_int: "round_half_even (of_int n) = n"
  by (simp add: round_half_even_def)

text \<open>The relative error of rounding to a double is at most \<open>2 ^ (- 53)\<close>.\<close>

lemma to_double_error: "\<bar>to_double x - x\<bar> \<le> \<bar>x\<bar> / 2 ^ 53"
proof (cases "x = 0")
  case True
  then show ?thesis by (simp add: to_double_def)
next
  case False
  define ex where "ex = exponent_of x - 52"
  define s where "s = x / 2 powi ex"
  have pos: "(0::rat) < 2 powi ex" by simp
  have x: "x = s * 2 powi ex" by (simp add: s_def)
  have td: "to_double x = of_int (round_half_even s) * 2 powi ex"
    using False by (simp add: to_double_def Let_def ex_def s_def)
  have "to_double x - x = (of_int (round_half_even s) - s) * 2 powi ex"
    unfolding td by (simp add: x algebra_simps)
  then have "\<bar>to_double x - x\<bar> = \<bar>of_int (round_half_even s) - s\<bar> * 2 powi ex"
    by (simp add: abs_mult)
  also have "\<dots> \<le> 1 / 2 * 2 powi ex"
    using round_half_even_error [of s] by (intro mult_right_mono) simp_all
  also have "\<dots> = 2 powi (exponent_of x) / 2 ^ 53"
    by (simp add: ex_def power_int_diff)
  also have "\<dots> \<le> \<bar>x\<bar> / 2 ^ 53"
    using exponent_of_bounds(1) [OF False] by (simp add: divide_right_mono)
  finally show ?thesis .
qed

text \<open>A number with a significand of at most 53 bits is a double, and rounds to itself.\<close>

lemma to_double_exact:
  assumes "x = of_int n * 2 powi j" and "\<bar>n\<bar> < 2 ^ 53"
  shows "to_double x = x"
proof (cases "x = 0")
  case True
  then show ?thesis by (simp add: to_double_def)
next
  case False
  define ex where "ex = exponent_of x - 52"
  have "2 powi (exponent_of x) \<le> \<bar>x\<bar>"
    by (rule exponent_of_bounds(1) [OF False])
  also have "\<bar>x\<bar> = of_int \<bar>n\<bar> * 2 powi j"
    by (simp add: assms(1) abs_mult)
  also have "\<dots> < 2 ^ 53 * 2 powi j"
  proof -
    have "(of_int \<bar>n\<bar> :: rat) < of_int (2 ^ 53)"
      using assms(2) by (simp only: of_int_less_iff)
    then show ?thesis by (simp add: mult_strict_right_mono)
  qed
  also have "\<dots> = 2 powi (53 + j)"
    by (simp add: power_int_add)
  finally have lt: "(2::rat) powi (exponent_of x) < 2 powi (53 + j)" .
  have "exponent_of x < 53 + j"
  proof (rule ccontr)
    assume "\<not> exponent_of x < 53 + j"
    then have "(2::rat) powi (53 + j) \<le> 2 powi (exponent_of x)"
      by (intro power_int_increasing) simp_all
    with lt show False by simp
  qed
  then have k: "0 \<le> j - ex" by (simp add: ex_def)
  have "x / 2 powi ex = of_int n * 2 powi (j - ex)"
    by (simp add: assms(1) power_int_diff)
  also have "\<dots> = of_int (n * 2 ^ nat (j - ex))"
    using k by (simp add: power_int_nonneg_exp)
  finally have "of_int (round_half_even (x / 2 powi ex)) = x / 2 powi ex"
    by (simp only: round_half_even_of_int)
  then show ?thesis
    using False by (simp add: to_double_def Let_def ex_def [symmetric])
qed

text \<open>
  Taking the floor is stable near a fraction \<open>n / d\<close>: a value closer to it than \<open>1 / d\<close>,
  and equal to it when the fraction is an integer, has the same floor.
\<close>

lemma floor_stable:
  assumes d: "0 < d"
    and near: "\<bar>y - of_int n / of_int d\<bar> < 1 / of_int d"
    and exact: "d dvd n \<Longrightarrow> y = of_int n / of_int d"
  shows "\<lfloor>y :: rat\<rfloor> = n div d"
proof (cases "d dvd n")
  case True
  then have "y = of_int n / of_int d" by (rule exact)
  then show ?thesis by (simp only: floor_divide_of_int_eq)
next
  case False
  define q where "q = n div d"
  define r where "r = n mod d"
  have "0 \<le> r" and "r < d" and "r \<noteq> 0"
    using d False by (simp_all add: r_def dvd_eq_mod_eq_0)
  then have r: "1 \<le> r" "r \<le> d - 1"
    by linarith+
  have dpos: "(0::rat) < of_int d" using d by simp
  have "n = d * q + r" by (simp add: q_def r_def)
  then have "(of_int n :: rat) = of_int (d * q + r)"
    by (simp only:)
  then have "(of_int n :: rat) = of_int d * of_int q + of_int r"
    by simp
  then have nd: "(of_int n / of_int d :: rat) = of_int q + of_int r / of_int d"
    using dpos by (simp add: field_simps)
  have r1: "(1::rat) / of_int d \<le> of_int r / of_int d"
    using r(1) dpos by (simp add: divide_right_mono)
  have "(of_int r :: rat) \<le> of_int (d - 1)"
    using r(2) by (simp only: of_int_le_iff)
  then have "(of_int r :: rat) \<le> of_int d - 1"
    by simp
  then have r2: "(of_int r / of_int d :: rat) \<le> 1 - 1 / of_int d"
    using dpos by (simp add: field_simps)
  have "of_int q \<le> y" and "y < of_int q + 1"
    using near r1 r2 unfolding nd by linarith+
  then have "\<lfloor>y\<rfloor> = q" by (intro floor_unique) simp_all
  then show ?thesis by (simp add: q_def)
qed

lemma trunc_stable:
  assumes d: "0 < d"
    and near: "\<bar>y - of_int n / of_int d\<bar> < 1 / of_int d"
    and exact: "d dvd n \<Longrightarrow> y = of_int n / of_int d"
  shows "trunc y = trunc (of_int n / of_int d)"
proof (cases "d dvd n")
  case True
  then show ?thesis by (simp add: exact)
next
  case False
  then have n0: "n \<noteq> 0" by auto
  have dpos: "(0::rat) < of_int d" using d by simp
  show ?thesis
  proof (cases "0 < n")
    case True
    then have "(1::rat) \<le> of_int n" by (simp add: int_one_le_iff_zero_less)
    then have "(1::rat) / of_int d \<le> of_int n / of_int d"
      using dpos by (simp add: divide_right_mono)
    with near have "0 \<le> y" and "(0::rat) \<le> of_int n / of_int d" by linarith+
    moreover have "\<lfloor>y\<rfloor> = n div d" using d near exact by (rule floor_stable)
    ultimately show ?thesis
      by (simp add: trunc_def floor_divide_of_int_eq)
  next
    case False
    with n0 have "n \<le> - 1" by simp
    then have "(of_int n :: rat) \<le> of_int (- 1)" by (simp only: of_int_le_iff)
    then have "(of_int n :: rat) \<le> - 1" by simp
    then have le: "(of_int n / of_int d :: rat) \<le> - (1 / of_int d)"
      using dpos by (simp add: field_simps)
    have "(0::rat) < 1 / of_int d" using dpos by simp
    with near le have neg: "y < 0" "(of_int n / of_int d :: rat) < 0"
      by linarith+
    have "\<bar>- y - of_int (- n) / of_int d\<bar> < 1 / of_int d"
      using near by (simp add: abs_minus_commute)
    moreover have "d dvd - n \<Longrightarrow> - y = of_int (- n) / of_int d"
      using exact by simp
    ultimately have "\<lfloor>- y\<rfloor> = (- n) div d"
      using d by (intro floor_stable)
    moreover have "\<lfloor>- (of_int n / of_int d :: rat)\<rfloor> = (- n) div d"
    proof -
      have "- (of_int n / of_int d :: rat) = of_int (- n) / of_int d" by simp
      then show ?thesis by (simp only: floor_divide_of_int_eq)
    qed
    ultimately show ?thesis
      using neg by (simp add: trunc_def ceiling_def)
  qed
qed

lemma abs_divide_2_53:
  fixes x b :: rat
  assumes "\<bar>x\<bar> < b * 2 ^ 53"
  shows "\<bar>x\<bar> / 2 ^ 53 < b"
  using assms by (simp add: field_simps)

lemma round_quotient_double:
  assumes "\<bar>e\<bar> < 2 ^ 53"
  shows "Math_round (to_double (of_int e / 6000)) = tenths e"
proof -
  define x :: rat where "x = of_int e / 6000"
  have "(of_int \<bar>e\<bar> :: rat) < of_int (2 ^ 53)"
    using assms by (simp only: of_int_less_iff)
  then have "\<bar>x\<bar> < 1 / 6000 * 2 ^ 53"
    by (simp add: x_def)
  then have "\<bar>x\<bar> / 2 ^ 53 < 1 / 6000"
    by (rule abs_divide_2_53)
  with to_double_error [of x] have err: "\<bar>to_double x - x\<bar> < 1 / 6000"
    by linarith
  have "\<lfloor>to_double x + 1 / 2\<rfloor> = (e + 3000) div 6000"
  proof (rule floor_stable)
    show "(0::int) < 6000" by simp
    have eq: "to_double x + 1 / 2 - of_int (e + 3000) / of_int 6000 = to_double x - x"
      by (simp add: x_def field_simps)
    show "\<bar>to_double x + 1 / 2 - of_int (e + 3000) / of_int 6000\<bar> < 1 / of_int 6000"
      unfolding eq using err by simp
    assume "(6000::int) dvd e + 3000"
    then obtain c where c: "e + 3000 = 6000 * c" ..
    then have e: "e = 3000 * (2 * c - 1)" by simp
    then have "x = of_int (2 * c - 1) * 2 powi (- 1)"
      by (simp add: x_def)
    moreover have "\<bar>2 * c - 1\<bar> < 2 ^ 53"
      using assms e by (simp add: abs_mult)
    ultimately have "to_double x = x"
      by (rule to_double_exact)
    then show "to_double x + 1 / 2 = of_int (e + 3000) / of_int 6000"
      by (simp add: x_def field_simps)
  qed
  then show ?thesis
    by (simp add: Math_round_def tenths_def x_def)
qed

lemma tenths_bound:
  assumes "\<bar>e\<bar> < 2 ^ 53"
  shows "\<bar>tenths e\<bar> < 2 ^ 41"
  using assms unfolding tenths_def by simp

lemma minutes_double_near:
  assumes "\<bar>e\<bar> < 2 ^ 53"
  shows "\<bar>minutes_double e - of_int (tenths e) / 10\<bar> < 1 / 40960"
    and "10 dvd tenths e \<Longrightarrow> minutes_double e = of_int (tenths e) / 10"
proof -
  define K where "K = tenths e"
  have m: "minutes_double e = to_double (of_int K / 10)"
    by (simp add: minutes_double_def round_quotient_double [OF assms] K_def)
  have "(of_int \<bar>K\<bar> :: rat) < of_int (2 ^ 41)"
    using tenths_bound [OF assms] unfolding K_def by (simp only: of_int_less_iff)
  then have "\<bar>of_int K / 10 :: rat\<bar> < 1 / 40960 * 2 ^ 53"
    by simp
  then have "\<bar>of_int K / 10 :: rat\<bar> / 2 ^ 53 < 1 / 40960"
    by (rule abs_divide_2_53)
  with to_double_error [of "of_int K / 10"]
  show "\<bar>minutes_double e - of_int K / 10\<bar> < 1 / 40960"
    unfolding m by linarith
  assume "10 dvd K"
  then obtain c where c: "K = 10 * c" ..
  then have "(of_int K / 10 :: rat) = of_int c * 2 powi 0"
    by simp
  moreover have "\<bar>c\<bar> < 2 ^ 53"
    using tenths_bound [OF assms] c unfolding K_def by simp
  ultimately show "minutes_double e = of_int K / 10"
    unfolding m by (rule to_double_exact)
qed

lemma hours_double_eq:
  assumes "\<bar>e\<bar> < 2 ^ 53"
  shows "hours_double e = hours_of e"
proof -
  define K where "K = tenths e"
  define mf where "mf = minutes_double e"
  note near = minutes_double_near(1) [OF assms, folded K_def mf_def]
  note exact = minutes_double_near(2) [OF assms, folded K_def mf_def]
  have Kb: "\<bar>of_int K :: rat\<bar> < 2 ^ 41"
  proof -
    have "(of_int \<bar>K\<bar> :: rat) < of_int (2 ^ 41)"
      using tenths_bound [OF assms] unfolding K_def by (simp only: of_int_less_iff)
    then show ?thesis by simp
  qed
  have two41: "(2::rat) ^ 41 = 2199023255552"
    by simp
  have "\<bar>mf\<bar> < 2 ^ 41"
    using near Kb unfolding two41 by linarith
  then have "\<bar>mf / 60\<bar> < 1 / 245760 * 2 ^ 53"
    by simp
  then have "\<bar>mf / 60\<bar> / 2 ^ 53 < 1 / 245760"
    by (rule abs_divide_2_53)
  with to_double_error [of "mf / 60"]
  have e1: "\<bar>to_double (mf / 60) - mf / 60\<bar> < 1 / 245760"
    by linarith
  have "\<lfloor>to_double (mf / 60)\<rfloor> = K div 600"
  proof (rule floor_stable)
    show "(0::int) < 600" by simp
    have "\<bar>to_double (mf / 60) - of_int K / 600\<bar> < 1 / 600"
      using e1 near by linarith
    then show "\<bar>to_double (mf / 60) - of_int K / of_int 600\<bar> < 1 / of_int 600"
      by simp
    assume "(600::int) dvd K"
    then obtain c where c: "K = 600 * c" ..
    then have "10 dvd K" by simp
    then have "mf = of_int K / 10" by (rule exact)
    then have mc: "mf / 60 = of_int c * 2 powi 0"
      using c by simp
    moreover have "\<bar>c\<bar> < 2 ^ 53"
      using tenths_bound [OF assms] c unfolding K_def by simp
    ultimately have "to_double (mf / 60) = mf / 60"
      by (rule to_double_exact)
    then show "to_double (mf / 60) = of_int K / of_int 600"
      using mc c by simp
  qed
  then show ?thesis
    by (simp add: hours_double_def Math_floor_def mf_def hours_of_div K_def)
qed

lemma remainingMinutes_double_eq:
  assumes "\<bar>e\<bar> < 2 ^ 53"
  shows "remainingMinutes_double e = remainingMinutes e"
proof -
  define K where "K = tenths e"
  define mf where "mf = minutes_double e"
  define T where "T = trunc (of_int K / of_int 600)"
  note near = minutes_double_near(1) [OF assms, folded K_def mf_def]
  note exact = minutes_double_near(2) [OF assms, folded K_def mf_def]
  have "trunc (mf / 60) = trunc (of_int K / of_int 600)"
  proof (rule trunc_stable)
    show "(0::int) < 600" by simp
    have "\<bar>mf / 60 - of_int K / 600\<bar> < 1 / 600"
      using near by linarith
    then show "\<bar>mf / 60 - of_int K / of_int 600\<bar> < 1 / of_int 600"
      by simp
    assume "(600::int) dvd K"
    then have "10 dvd K" by auto
    then have "mf = of_int K / 10" by (rule exact)
    then show "mf / 60 = of_int K / of_int 600" by simp
  qed
  then have a: "js_rem mf 60 = mf - 60 * of_int T"
    by (simp add: js_rem_def T_def)
  have q: "(of_int K / 10 / 60 :: rat) = of_int K / of_int 600"
    by simp
  have b: "js_rem (of_int K / 10) 60 = of_int (K - 600 * T) / of_int 10"
    unfolding js_rem_def q T_def [symmetric] by simp
  have "\<lfloor>js_rem mf 60\<rfloor> = (K - 600 * T) div 10"
  proof (rule floor_stable)
    show "(0::int) < 10" by simp
    have "js_rem mf 60 - of_int (K - 600 * T) / of_int 10 = mf - of_int K / 10"
      unfolding a by (simp add: diff_divide_distrib)
    then show "\<bar>js_rem mf 60 - of_int (K - 600 * T) / of_int 10\<bar> < 1 / of_int 10"
      using near by simp
    assume "(10::int) dvd K - 600 * T"
    then have "10 dvd (K - 600 * T) + 600 * T"
      by (rule dvd_add) simp
    then have "10 dvd K"
      by simp
    then have "mf = of_int K / 10" by (rule exact)
    then show "js_rem mf 60 = of_int (K - 600 * T) / of_int 10"
      unfolding a by (simp add: diff_divide_distrib)
  qed
  also have "\<dots> = \<lfloor>js_rem (of_int K / 10) 60\<rfloor>"
    unfolding b by (simp only: floor_divide_of_int_eq)
  finally show ?thesis
    by (simp add: remainingMinutes_double_def remainingMinutes_def Math_floor_def
        mf_def minutes_of_tenths K_def)
qed

lemma js_rem_one_bound: "\<bar>js_rem a 1\<bar> < 1"
proof -
  have "of_int \<lfloor>a\<rfloor> \<le> a" and "a < of_int \<lfloor>a\<rfloor> + 1"
    and "a \<le> of_int \<lceil>a\<rceil>" and "of_int \<lceil>a\<rceil> - 1 < a"
    by linarith+
  then show ?thesis
    by (auto simp: js_rem_def trunc_def)
qed

lemma remainingSeconds_double_eq:
  assumes "\<bar>e\<bar> < 2 ^ 53"
  shows "remainingSeconds_double e = remainingSeconds e"
proof -
  define K where "K = tenths e"
  define mf where "mf = minutes_double e"
  define T where "T = trunc (of_int K / of_int 10)"
  define S where "S = K - 10 * T"
  note near = minutes_double_near(1) [OF assms, folded K_def mf_def]
  note exact = minutes_double_near(2) [OF assms, folded K_def mf_def]
  have "trunc mf = trunc (of_int K / of_int 10)"
  proof (rule trunc_stable)
    show "(0::int) < 10" by simp
    show "\<bar>mf - of_int K / of_int 10\<bar> < 1 / of_int 10"
      using near by simp
    assume "(10::int) dvd K"
    then show "mf = of_int K / of_int 10"
      using exact by simp
  qed
  then have a: "js_rem mf 1 = mf - of_int T"
    by (simp add: js_rem_def T_def)
  have b: "js_rem (of_int K / 10) 1 = of_int S / 10"
    by (simp add: js_rem_def T_def S_def field_simps)
  define z where "z = js_rem mf 1 * 60"
  have zS: "z - of_int (6 * S) = 60 * (mf - of_int K / 10)"
    by (simp add: z_def a S_def field_simps)
  have "\<bar>js_rem mf 1\<bar> < 1" by (rule js_rem_one_bound)
  then have "\<bar>z\<bar> < 1 / 4096 * 2 ^ 53"
    by (simp add: z_def)
  then have "\<bar>z\<bar> / 2 ^ 53 < 1 / 4096"
    by (rule abs_divide_2_53)
  with to_double_error [of z] have "\<bar>to_double z - z\<bar> < 1 / 4096"
    by linarith
  moreover have "\<bar>z - of_int (6 * S)\<bar> < 60 / 40960"
  proof -
    define dl where "dl = mf - of_int K / 10"
    have "\<bar>dl\<bar> < 1 / 40960"
      using near by (simp only: dl_def)
    then have "\<bar>60 * dl\<bar> < 60 / 40960"
      by (simp add: abs_mult)
    then show ?thesis
      by (simp only: zS dl_def)
  qed
  ultimately have "\<bar>to_double z - of_int (6 * S)\<bar> < 1 / 2"
    by linarith
  then have "of_int (6 * S) \<le> to_double z + 1 / 2" and "to_double z + 1 / 2 < of_int (6 * S) + 1"
    by linarith+
  then have "\<lfloor>to_double z + 1 / 2\<rfloor> = 6 * S"
    by (rule floor_unique)
  moreover have "remainingSeconds e = 6 * S"
  proof -
    have "js_rem (minutes_of e) 1 * 60 = of_int (6 * S)"
      by (simp add: minutes_of_tenths K_def [symmetric] b)
    then show ?thesis
      unfolding remainingSeconds_def by (simp only: Math_round_of_int)
  qed
  ultimately show ?thesis
    by (simp add: remainingSeconds_double_def Math_round_def mf_def z_def)
qed

text \<open>
  Below \<open>2 ^ 53\<close> in absolute value, where every integer is a double, the components
  computed in double precision are the ones computed exactly, and so is the string.
\<close>

lemma formattedTime_double_eq:
  assumes "\<bar>e\<bar> < 2 ^ 53"
  shows "formattedTime_double e = formattedTime e"
  using hours_double_eq [OF assms] remainingMinutes_double_eq [OF assms]
    remainingSeconds_double_eq [OF assms]
  by (simp add: formattedTime_double_def formattedTime_def)

lemma minutes_double_65000: "minutes_double 65000 = 2476979795053773 / 2251799813685248"
  by code_simp

lemma formattedTime_double_65000: "formattedTime_double 65000 = ''00:01:06''"
  by code_simp

section \<open>The formatted duration\<close>

lemma concat_replicate_zero: "concat (replicate n ''0'') = replicate n (CHR ''0'')"
  by (induction n) simp_all

lemma padStart_zero_pad2: "padStart 2 ''0'' (String_of_int n) = zero_pad2 n"
  by (simp add: padStart_def zero_pad2_def Let_def concat_replicate_zero)

lemma formattedTime_js_rem: "formattedTime e = spec_formattedTime js_rem e"
  by (simp add: formattedTime_def spec_formattedTime_def Let_def padStart_zero_pad2
      hours_of_def remainingMinutes_def remainingSeconds_def minutes_of_def
      Math_round_def Math_floor_def round_def)

lemma js_rem_floor_mod: "0 \<le> a / b \<Longrightarrow> js_rem a b = floor_mod a b"
  by (simp add: js_rem_def floor_mod_def trunc_def)

lemma minutes_of_nonneg: "0 \<le> e \<Longrightarrow> 0 \<le> minutes_of e"
  using tenths_nonneg [of e] by (simp add: minutes_of_tenths)

lemma formattedTime_floor_mod:
  assumes "0 \<le> e"
  shows "formattedTime e = spec_formattedTime floor_mod e"
proof -
  have m: "minutes_of e = of_int (round (of_int e / 6000 :: rat)) / 10"
    by (simp add: minutes_of_def Math_round_def round_def)
  have "js_rem (minutes_of e) 60 = floor_mod (minutes_of e) 60"
    using minutes_of_nonneg [OF assms] by (intro js_rem_floor_mod) simp
  moreover have "js_rem (minutes_of e) 1 = floor_mod (minutes_of e) 1"
    using minutes_of_nonneg [OF assms] by (intro js_rem_floor_mod) simp
  ultimately show ?thesis
    unfolding formattedTime_js_rem spec_formattedTime_def m [symmetric] by simp
qed

lemma formattedTime_65000: "formattedTime 65000 = ''00:01:06''"
  by code_simp

text \<open>
  Claim C3. For every elapsed time the formatted duration is the one the specification
  describes: \<open>minutes = round(elapsedMs / 6000) / 10\<close>, then \<open>floor(minutes / 60)\<close>,
  \<open>floor(minutes mod 60)\<close> and \<open>round((minutes mod 1) * 60)\<close>, each padded with zeros to
  two digits, joined by colons; \<open>mod\<close> is the remainder operator of the source, and from 0
  upwards the remainder of the floored quotient gives the same string. Below \<open>2 ^ 53\<close> in
  absolute value the computation in double precision gives this string too. 65000
  milliseconds are shown as 00:01:06.
\<close>

theorem formattedTime_as_specified:
  "formattedTime e = spec_formattedTime js_rem e \<and>
   (0 \<le> e \<longrightarrow> formattedTime e = spec_formattedTime floor_mod e) \<and>
   (\<bar>e\<bar> < 2 ^ 53 \<longrightarrow> formattedTime_double e = spec_formattedTime js_rem e) \<and>
   formattedTime 65000 = ''00:01:06'' \<and>
   formattedTime_double 65000 = ''00:01:06''"
  using formattedTime_js_rem [of e] formattedTime_floor_mod [of e] formattedTime_65000
    formattedTime_double_eq [of e] formattedTime_double_65000
  by simp

theorem formattedTime_as_specified_witness:
  "(0::int) \<le> 3725000 \<and> \<bar>3725000::int\<bar> < 2 ^ 53 \<and>
   formattedTime 3725000 = spec_formattedTime js_rem 3725000 \<and>
   formattedTime 3725000 = spec_formattedTime floor_mod 3725000 \<and>
   formattedTime_double 3725000 = spec_formattedTime js_rem 3725000 \<and>
   formattedTime 3725000 = ''01:02:06''"
proof -
  have f: "formattedTime 3725000 = ''01:02:06''"
    by code_simp
  have le: "(0::int) \<le> 3725000" and lt: "\<bar>3725000::int\<bar> < 2 ^ 53"
    by simp_all
  with formattedTime_as_specified [of 3725000]
  have "formattedTime 3725000 = spec_formattedTime js_rem 3725000"
    and "formattedTime 3725000 = spec_formattedTime floor_mod 3725000"
    and "formattedTime_double 3725000 = spec_formattedTime js_rem 3725000"
    by blast+
  with f le lt show ?thesis by blast
qed

lemma digits_of_nat_small: "n < 10 \<Longrightarrow> digits_of_nat n = [digit_char n]"
  by (simp add: digits_of_nat.simps)

lemma seconds_field:
  assumes "0 \<le> j" and "j \<le> 9"
  shows "padStart 2 ''0'' (String_of_int (6 * j)) \<in>
     set [''00'', ''06'', ''12'', ''18'', ''24'', ''30'', ''36'', ''42'', ''48'', ''54'']"
proof -
  from assms have "j = 0 \<or> j = 1 \<or> j = 2 \<or> j = 3 \<or> j = 4 \<or> j = 5 \<or> j = 6 \<or> j = 7 \<or> j = 8 \<or> j = 9"
    by arith
  moreover have "padStart 2 ''0'' (String_of_int 0) = ''00''"
    by code_simp
  moreover have "padStart 2 ''0'' (String_of_int 6) = ''06''"
    by code_simp
  moreover have "padStart 2 ''0'' (String_of_int 12) = ''12''"
    by code_simp
  moreover have "padStart 2 ''0'' (String_of_int 18) = ''18''"
    by code_simp
  moreover have "padStart 2 ''0'' (String_of_int 24) = ''24''"
    by code_simp
  moreover have "padStart 2 ''0'' (String_of_int 30) = ''30''"
    by code_simp
  moreover have "padStart 2 ''0'' (String_of_int 36) = ''36''"
    by code_simp
  moreover have "padStart 2 ''0'' (String_of_int 42) = ''42''"
    by code_simp
  moreover have "padStart 2 ''0'' (String_of_int 48) = ''48''"
    by code_simp
  moreover have "padStart 2 ''0'' (String_of_int 54) = ''54''"
    by code_simp
  ultimately show ?thesis by auto
qed

text \<open>
  Claim C10. For an elapsed time that is not negative, the seconds shown are a multiple
  of 6 between 0 and 54: the formatted duration ends, after its last colon, in one of
  00, 06, 12, ..., 54, and never in 60. Below \<open>2 ^ 53\<close> the seconds computed in double
  precision are these seconds.
\<close>

theorem seconds_multiple_of_six:
  assumes "0 \<le> e"
  shows "remainingSeconds e mod 6 = 0 \<and> 0 \<le> remainingSeconds e \<and> remainingSeconds e \<le> 54 \<and>
         (\<exists>hm ss. formattedTime e = hm @ '':'' @ ss \<and>
            ss = padStart 2 ''0'' (String_of_int (remainingSeconds e)) \<and>
            ss \<in> set [''00'', ''06'', ''12'', ''18'', ''24'', ''30'', ''36'', ''42'', ''48'', ''54'']) \<and>
         (e < 2 ^ 53 \<longrightarrow>
            remainingSeconds_double e = remainingSeconds e \<and> formattedTime_double e = formattedTime e)"
proof -
  have r: "remainingSeconds e = 6 * (tenths e mod 10)"
    using assms by (rule remainingSeconds_nonneg)
  have b: "0 \<le> tenths e mod 10" "tenths e mod 10 \<le> 9"
    by simp_all
  have "padStart 2 ''0'' (String_of_int (remainingSeconds e)) \<in>
     set [''00'', ''06'', ''12'', ''18'', ''24'', ''30'', ''36'', ''42'', ''48'', ''54'']"
    unfolding r using b by (rule seconds_field)
  moreover have "formattedTime e =
      (padStart 2 ''0'' (String_of_int (hours_of e)) @ '':''
        @ padStart 2 ''0'' (String_of_int (remainingMinutes e)))
      @ '':'' @ padStart 2 ''0'' (String_of_int (remainingSeconds e))"
    by (simp add: formattedTime_def Let_def)
  ultimately have "\<exists>hm ss. formattedTime e = hm @ '':'' @ ss \<and>
      ss = padStart 2 ''0'' (String_of_int (remainingSeconds e)) \<and>
      ss \<in> set [''00'', ''06'', ''12'', ''18'', ''24'', ''30'', ''36'', ''42'', ''48'', ''54'']"
    by blast
  moreover have "remainingSeconds e mod 6 = 0" "0 \<le> remainingSeconds e" "remainingSeconds e \<le> 54"
    unfolding r using b by simp_all
  moreover have "e < 2 ^ 53 \<longrightarrow>
      remainingSeconds_double e = remainingSeconds e \<and> formattedTime_double e = formattedTime e"
    using assms remainingSeconds_double_eq [of e] formattedTime_double_eq [of e] by simp
  ultimately show ?thesis by blast
qed

theorem seconds_multiple_of_six_witness:
  "(0::int) \<le> 59999 \<and> (59999::int) < 2 ^ 53 \<and>
   remainingSeconds 59999 = 0 \<and> formattedTime 59999 = ''00:01:00'' \<and>
   remainingSeconds_double 59999 = 0 \<and> formattedTime_double 59999 = ''00:01:00'' \<and>
   (0::int) \<le> 56999 \<and> (56999::int) < 2 ^ 53 \<and>
   remainingSeconds 56999 = 54 \<and> formattedTime 56999 = ''00:00:54'' \<and>
   remainingSeconds_double 56999 = 54 \<and> formattedTime_double 56999 = ''00:00:54''"
proof -
  have "remainingSeconds 59999 = 0"
    by code_simp
  moreover have "formattedTime 59999 = ''00:01:00''"
    by code_simp
  moreover have "remainingSeconds 56999 = 54"
    by code_simp
  moreover have "formattedTime 56999 = ''00:00:54''"
    by code_simp
  ultimately show ?thesis
    using seconds_multiple_of_six [of 59999] seconds_multiple_of_six [of 56999] by simp
qed

end
